theory Spec2Isabelle
  imports Main "HOL-Library.Word"
begin

section \<open>boni.hpp: the generic handle wrappers\<close>

subsection \<open>\<open>boni::nullable<handle_type, null_value>\<close>\<close>

text \<open>
  The class has one data member, \<open>handle_type value{null_value}\<close>. The template
  argument \<open>null_value\<close> is the first argument of every operation of the model that
  reads it. The member is called \<open>value_field\<close> here.
\<close>

record 'h nullable =
  value_field :: 'h

text \<open>\<open>nullable() = default;\<close> the member initialiser stores \<open>null_value\<close>.\<close>

definition nullable_default :: "'h \<Rightarrow> 'h nullable" where
  "nullable_default null_value = \<lparr>value_field = null_value\<rparr>"

text \<open>\<open>nullable(std::nullptr_t) : nullable{} {}\<close>\<close>

definition nullable_nullptr :: "'h \<Rightarrow> 'h nullable" where
  "nullable_nullptr null_value = nullable_default null_value"

text \<open>\<open>nullable(handle_type new_value) : value{new_value} {}\<close>\<close>

definition nullable_from :: "'h \<Rightarrow> 'h nullable" where
  "nullable_from new_value = \<lparr>value_field = new_value\<rparr>"

text \<open>\<open>explicit operator bool() const { return value != null_value; }\<close>\<close>

definition nullable_bool :: "'h \<Rightarrow> 'h nullable \<Rightarrow> bool" where
  "nullable_bool null_value n = (value_field n \<noteq> null_value)"

text \<open>\<open>operator handle_type() const { return value; }\<close>\<close>

definition nullable_handle :: "'h nullable \<Rightarrow> 'h" where
  "nullable_handle n = value_field n"

text \<open>The friend operators \<open>==\<close> and \<open>!=\<close>: both sides are converted to \<open>handle_type\<close>.\<close>

definition nullable_eq :: "'h nullable \<Rightarrow> 'h nullable \<Rightarrow> bool" where
  "nullable_eq left right = (nullable_handle left = nullable_handle right)"

definition nullable_neq :: "'h nullable \<Rightarrow> 'h nullable \<Rightarrow> bool" where
  "nullable_neq left right = (\<not> nullable_eq left right)"

subsection \<open>The deleters\<close>

text \<open>
  A release function of the C library acts on the world outside the program; the world
  is a type parameter \<open>'w\<close> and \<open>destroy_function\<close> is a function on it.

  \<open>nullable_deleter<handle_type_t, destroy_function>::operator()\<close>. Its \<open>pointer\<close> type
  is \<open>nullable<handle_type>\<close>, whose \<open>null_value\<close> is the default \<open>handle_type{}\<close>:
  the parameter \<open>h0\<close>. The body is
  \<^verbatim>\<open>if (pointer_to_delete == pointer()) { destroy_function(pointer_to_delete); }\<close>
\<close>

definition nullable_deleter_call ::
  "'h \<Rightarrow> ('h \<Rightarrow> 'w \<Rightarrow> 'w) \<Rightarrow> 'h nullable \<Rightarrow> 'w \<Rightarrow> 'w" where
  "nullable_deleter_call h0 destroy_function pointer_to_delete w =
     (if nullable_eq pointer_to_delete (nullable_default h0)
      then destroy_function (nullable_handle pointer_to_delete) w
      else w)"

text \<open>
  \<open>unsafe_handle_deleter<handle_type_t, return_type, destroy_function>::operator()\<close>,
  with \<open>pointer = handle_type\<close> and \<open>h0\<close> the value of \<open>pointer()\<close>:
  \<^verbatim>\<open>if (handle_to_delete == pointer()) { destroy_function(handle_to_delete); }\<close>
  The value \<open>destroy_function\<close> returns is dropped.
\<close>

definition unsafe_handle_deleter_call ::
  "'h \<Rightarrow> ('h \<Rightarrow> 'w \<Rightarrow> 'r \<times> 'w) \<Rightarrow> 'h \<Rightarrow> 'w \<Rightarrow> 'w" where
  "unsafe_handle_deleter_call h0 destroy_function handle_to_delete w =
     (if handle_to_delete = h0
      then snd (destroy_function handle_to_delete w)
      else w)"

text \<open>
  Release functions that only record the handle they are called with: the world is the
  list of the calls made so far. The second one also returns a status, as \<open>fclose\<close> does.
\<close>

definition recording_release :: "'h \<Rightarrow> 'h list \<Rightarrow> 'h list" where
  "recording_release h calls = calls @ [h]"

definition recording_release_status :: "'h \<Rightarrow> 'h list \<Rightarrow> int \<times> 'h list" where
  "recording_release_status h calls = (0, calls @ [h])"

subsection \<open>\<open>std::unique_ptr<pointer, deleter_type>\<close>, the parent of \<open>auto_handle\<close>\<close>

text \<open>
  \<open>auto_handle\<close> inherits everything but its conversion operator from the standard
  library's \<open>std::unique_ptr\<close>. The members are modelled after the C++ standard
  ([unique.ptr.single]): the object stores one \<open>pointer\<close>; the operations take what the
  \<open>pointer\<close> type and the deleter provide as arguments:
  \<open>null_p\<close> is \<open>pointer()\<close>, \<open>is_nullptr p\<close> is \<open>p == nullptr\<close>, \<open>truthy p\<close> is the
  contextual conversion of \<open>p\<close> to \<open>bool\<close>, and \<open>deleter\<close> is the call operator of
  \<open>deleter_type\<close>.
\<close>

record 'p unique_ptr =
  stored :: 'p

text \<open>The default constructor value-initialises the stored pointer.\<close>

definition unique_ptr_default :: "'p \<Rightarrow> 'p unique_ptr" where
  "unique_ptr_default null_p = \<lparr>stored = null_p\<rparr>"

text \<open>\<open>explicit unique_ptr(pointer p)\<close>\<close>

definition unique_ptr_from :: "'p \<Rightarrow> 'p unique_ptr" where
  "unique_ptr_from p = \<lparr>stored = p\<rparr>"

definition unique_ptr_get :: "'p unique_ptr \<Rightarrow> 'p" where
  "unique_ptr_get u = stored u"

text \<open>\<open>explicit operator bool() const\<close>: \<open>get() != nullptr\<close>.\<close>

definition unique_ptr_bool :: "('p \<Rightarrow> bool) \<Rightarrow> 'p unique_ptr \<Rightarrow> bool" where
  "unique_ptr_bool is_nullptr u = (\<not> is_nullptr (unique_ptr_get u))"

text \<open>\<open>release()\<close> returns the stored pointer and leaves \<open>pointer()\<close> behind.\<close>

definition unique_ptr_release :: "'p \<Rightarrow> 'p unique_ptr \<Rightarrow> 'p \<times> 'p unique_ptr" where
  "unique_ptr_release null_p u = (stored u, u\<lparr>stored := null_p\<rparr>)"

text \<open>
  \<open>reset(p)\<close>: assigns \<open>p\<close> to the stored pointer and then, with the old value,
  evaluates \<open>if (old_p) get_deleter()(old_p);\<close>
\<close>

definition unique_ptr_reset ::
  "('p \<Rightarrow> bool) \<Rightarrow> ('p \<Rightarrow> 'w \<Rightarrow> 'w) \<Rightarrow> 'p \<Rightarrow> 'p unique_ptr \<Rightarrow> 'w \<Rightarrow> 'p unique_ptr \<times> 'w" where
  "unique_ptr_reset truthy deleter p u w =
     (let old_p = stored u;
          u' = u\<lparr>stored := p\<rparr>
      in (u', if truthy old_p then deleter old_p w else w))"

text \<open>
  The destructor: if \<open>get() == nullptr\<close> there are no effects; otherwise
  \<open>get_deleter()(get())\<close>.
\<close>

definition unique_ptr_dtor ::
  "('p \<Rightarrow> bool) \<Rightarrow> ('p \<Rightarrow> 'w \<Rightarrow> 'w) \<Rightarrow> 'p unique_ptr \<Rightarrow> 'w \<Rightarrow> 'w" where
  "unique_ptr_dtor is_nullptr deleter u w =
     (if is_nullptr (unique_ptr_get u) then w else deleter (unique_ptr_get u) w)"

text \<open>
  Move construction builds the new object from \<open>u.release()\<close>; the result is the pair
  (new object, moved-from source).
\<close>

definition unique_ptr_move_ctor :: "'p \<Rightarrow> 'p unique_ptr \<Rightarrow> 'p unique_ptr \<times> 'p unique_ptr" where
  "unique_ptr_move_ctor null_p src =
     (case unique_ptr_release null_p src of (p, src') \<Rightarrow> (unique_ptr_from p, src'))"

text \<open>
  Move assignment calls \<open>reset(u.release())\<close>; the result is
  (destination, moved-from source, world).
\<close>

definition unique_ptr_move_assign ::
  "'p \<Rightarrow> ('p \<Rightarrow> bool) \<Rightarrow> ('p \<Rightarrow> 'w \<Rightarrow> 'w) \<Rightarrow> 'p unique_ptr \<Rightarrow> 'p unique_ptr \<Rightarrow> 'w
     \<Rightarrow> 'p unique_ptr \<times> 'p unique_ptr \<times> 'w" where
  "unique_ptr_move_assign null_p truthy deleter dst src w =
     (case unique_ptr_release null_p src of
        (p, src') \<Rightarrow>
          (case unique_ptr_reset truthy deleter p dst w of
             (dst', w') \<Rightarrow> (dst', src', w')))"

subsection \<open>\<open>auto_handle<nullable_deleter<handle_type, destroy_function>>\<close>\<close>

text \<open>
  The instance \<open>sdl2::audio_device\<close> uses: \<open>pointer\<close> is \<open>nullable<handle_type>\<close>. The
  first argument \<open>h0\<close> is \<open>handle_type{}\<close> throughout.
\<close>

type_synonym 'h nauto_handle = "'h nullable unique_ptr"

definition nauto_default :: "'h \<Rightarrow> 'h nauto_handle" where
  "nauto_default h0 = unique_ptr_default (nullable_default h0)"

text \<open>Construction from a raw handle: the argument converts to \<open>pointer\<close> first.\<close>

definition nauto_from :: "'h \<Rightarrow> 'h nauto_handle" where
  "nauto_from h = unique_ptr_from (nullable_from h)"

definition nauto_is_nullptr :: "'h \<Rightarrow> 'h nullable \<Rightarrow> bool" where
  "nauto_is_nullptr h0 p = nullable_eq p (nullable_nullptr h0)"

text \<open>\<open>operator handle_type() const { return parent_type::get(); }\<close>\<close>

definition nauto_to_handle :: "'h nauto_handle \<Rightarrow> 'h" where
  "nauto_to_handle a = nullable_handle (unique_ptr_get a)"

definition nauto_bool :: "'h \<Rightarrow> 'h nauto_handle \<Rightarrow> bool" where
  "nauto_bool h0 a = unique_ptr_bool (nauto_is_nullptr h0) a"

definition nauto_dtor :: "'h \<Rightarrow> ('h \<Rightarrow> 'w \<Rightarrow> 'w) \<Rightarrow> 'h nauto_handle \<Rightarrow> 'w \<Rightarrow> 'w" where
  "nauto_dtor h0 destroy_function a w =
     unique_ptr_dtor (nauto_is_nullptr h0) (nullable_deleter_call h0 destroy_function) a w"

definition nauto_reset ::
  "'h \<Rightarrow> ('h \<Rightarrow> 'w \<Rightarrow> 'w) \<Rightarrow> 'h nullable \<Rightarrow> 'h nauto_handle \<Rightarrow> 'w \<Rightarrow> 'h nauto_handle \<times> 'w" where
  "nauto_reset h0 destroy_function p a w =
     unique_ptr_reset (nullable_bool h0) (nullable_deleter_call h0 destroy_function) p a w"

definition nauto_release :: "'h \<Rightarrow> 'h nauto_handle \<Rightarrow> 'h nullable \<times> 'h nauto_handle" where
  "nauto_release h0 a = unique_ptr_release (nullable_default h0) a"

definition nauto_move_ctor :: "'h \<Rightarrow> 'h nauto_handle \<Rightarrow> 'h nauto_handle \<times> 'h nauto_handle" where
  "nauto_move_ctor h0 src = unique_ptr_move_ctor (nullable_default h0) src"

definition nauto_move_assign ::
  "'h \<Rightarrow> ('h \<Rightarrow> 'w \<Rightarrow> 'w) \<Rightarrow> 'h nauto_handle \<Rightarrow> 'h nauto_handle \<Rightarrow> 'w
     \<Rightarrow> 'h nauto_handle \<times> 'h nauto_handle \<times> 'w" where
  "nauto_move_assign h0 destroy_function dst src w =
     unique_ptr_move_assign (nullable_default h0) (nullable_bool h0)
       (nullable_deleter_call h0 destroy_function) dst src w"

subsection \<open>\<open>auto_handle<unsafe_handle_deleter<handle_type, return_type, destroy_function>>\<close>\<close>

text \<open>
  The instance \<open>boni::file\<close> uses: \<open>pointer\<close> is the raw handle type itself, and \<open>h0\<close>
  is its null value.
\<close>

type_synonym 'h hauto_handle = "'h unique_ptr"

definition hauto_default :: "'h \<Rightarrow> 'h hauto_handle" where
  "hauto_default h0 = unique_ptr_default h0"

definition hauto_from :: "'h \<Rightarrow> 'h hauto_handle" where
  "hauto_from h = unique_ptr_from h"

definition hauto_is_nullptr :: "'h \<Rightarrow> 'h \<Rightarrow> bool" where
  "hauto_is_nullptr h0 p = (p = h0)"

definition hauto_truthy :: "'h \<Rightarrow> 'h \<Rightarrow> bool" where
  "hauto_truthy h0 p = (p \<noteq> h0)"

definition hauto_to_handle :: "'h hauto_handle \<Rightarrow> 'h" where
  "hauto_to_handle a = unique_ptr_get a"

definition hauto_bool :: "'h \<Rightarrow> 'h hauto_handle \<Rightarrow> bool" where
  "hauto_bool h0 a = unique_ptr_bool (hauto_is_nullptr h0) a"

definition hauto_dtor ::
  "'h \<Rightarrow> ('h \<Rightarrow> 'w \<Rightarrow> 'r \<times> 'w) \<Rightarrow> 'h hauto_handle \<Rightarrow> 'w \<Rightarrow> 'w" where
  "hauto_dtor h0 destroy_function a w =
     unique_ptr_dtor (hauto_is_nullptr h0) (unsafe_handle_deleter_call h0 destroy_function) a w"

definition hauto_reset ::
  "'h \<Rightarrow> ('h \<Rightarrow> 'w \<Rightarrow> 'r \<times> 'w) \<Rightarrow> 'h \<Rightarrow> 'h hauto_handle \<Rightarrow> 'w \<Rightarrow> 'h hauto_handle \<times> 'w" where
  "hauto_reset h0 destroy_function p a w =
     unique_ptr_reset (hauto_truthy h0) (unsafe_handle_deleter_call h0 destroy_function) p a w"

definition hauto_release :: "'h \<Rightarrow> 'h hauto_handle \<Rightarrow> 'h \<times> 'h hauto_handle" where
  "hauto_release h0 a = unique_ptr_release h0 a"

definition hauto_move_ctor :: "'h \<Rightarrow> 'h hauto_handle \<Rightarrow> 'h hauto_handle \<times> 'h hauto_handle" where
  "hauto_move_ctor h0 src = unique_ptr_move_ctor h0 src"

definition hauto_move_assign ::
  "'h \<Rightarrow> ('h \<Rightarrow> 'w \<Rightarrow> 'r \<times> 'w) \<Rightarrow> 'h hauto_handle \<Rightarrow> 'h hauto_handle \<Rightarrow> 'w
     \<Rightarrow> 'h hauto_handle \<times> 'h hauto_handle \<times> 'w" where
  "hauto_move_assign h0 destroy_function dst src w =
     unique_ptr_move_assign h0 (hauto_truthy h0)
       (unsafe_handle_deleter_call h0 destroy_function) dst src w"

subsection \<open>The member operations of an owner, as steps\<close>

text \<open>
  What client code can do with a live owner. The three observers are \<open>const\<close> members;
  \<open>Op_reset\<close> replaces the held value and \<open>Op_release\<close> is what a move out of the owner
  does to it.
\<close>

datatype 'p owner_op = Op_get | Op_bool | Op_convert | Op_reset 'p | Op_release

fun is_observer :: "'p owner_op \<Rightarrow> bool" where
  "is_observer Op_get = True"
| "is_observer Op_bool = True"
| "is_observer Op_convert = True"
| "is_observer (Op_reset p) = False"
| "is_observer Op_release = False"

fun nauto_step ::
  "'h \<Rightarrow> ('h \<Rightarrow> 'w \<Rightarrow> 'w) \<Rightarrow> 'h nullable owner_op \<Rightarrow> 'h nauto_handle \<times> 'w \<Rightarrow> 'h nauto_handle \<times> 'w" where
  "nauto_step h0 f Op_get (a, w) = (a, w)"
| "nauto_step h0 f Op_bool (a, w) = (a, w)"
| "nauto_step h0 f Op_convert (a, w) = (a, w)"
| "nauto_step h0 f (Op_reset p) (a, w) = nauto_reset h0 f p a w"
| "nauto_step h0 f Op_release (a, w) = (snd (nauto_release h0 a), w)"

fun hauto_step ::
  "'h \<Rightarrow> ('h \<Rightarrow> 'w \<Rightarrow> 'r \<times> 'w) \<Rightarrow> 'h owner_op \<Rightarrow> 'h hauto_handle \<times> 'w \<Rightarrow> 'h hauto_handle \<times> 'w" where
  "hauto_step h0 f Op_get (a, w) = (a, w)"
| "hauto_step h0 f Op_bool (a, w) = (a, w)"
| "hauto_step h0 f Op_convert (a, w) = (a, w)"
| "hauto_step h0 f (Op_reset p) (a, w) = hauto_reset h0 f p a w"
| "hauto_step h0 f Op_release (a, w) = (snd (hauto_release h0 a), w)"

section \<open>The world outside the program\<close>

text \<open>
  The C libraries are not part of the repository. What the program does to them is
  recorded in the world: the calls of the functions the claims are about, in order, and
  what is written to \<open>stderr\<close>. What the libraries answer is taken from a record of
  \<open>externals\<close>, over which every theorem quantifies.

  \<open>espeak_ng_STATUS\<close> is an enumeration whose success value \<open>ENS_OK\<close> is 0 in
  \<open>espeak_ng.h\<close>; \<open>espeak_ng_ERROR_CONTEXT\<close> is a pointer to an opaque structure
  (\<open>None\<close> is \<open>nullptr\<close>); \<open>SDL_AudioDeviceID\<close> is \<open>Uint32\<close>.
\<close>

type_synonym espeak_ng_STATUS = int

definition ENS_OK :: espeak_ng_STATUS where
  "ENS_OK = 0"

type_synonym espeak_ng_ERROR_CONTEXT = "nat option"

type_synonym SDL_AudioDeviceID = "32 word"

datatype api_call =
    Call_espeak_ng_Initialize
  | Call_espeak_ng_Terminate
  | Call_espeak_ng_ClearErrorContext espeak_ng_ERROR_CONTEXT
  | Call_SDL_SetMainReady
  | Call_SDL_Init "32 word"
  | Call_SDL_Quit
  | Call_SDL_QueueAudio SDL_AudioDeviceID "16 word list" "32 word"

record world =
  api_calls :: "api_call list"
  stderr_stream :: "string list"

record externals =
  Initialize_outcome :: "espeak_ng_STATUS \<times> espeak_ng_ERROR_CONTEXT"
  status_code_message :: "espeak_ng_STATUS \<Rightarrow> espeak_ng_ERROR_CONTEXT \<Rightarrow> string"
  SDL_Init_outcome :: "32 word \<Rightarrow> int"
  SDL_GetError_text :: string
  SDL_QueueAudio_outcome :: "SDL_AudioDeviceID \<Rightarrow> 16 word list \<Rightarrow> 32 word \<Rightarrow> int"
  second_argument_first :: bool

definition log_call :: "api_call \<Rightarrow> world \<Rightarrow> world" where
  "log_call c w = w\<lparr>api_calls := api_calls w @ [c]\<rparr>"

definition write_stderr :: "string \<Rightarrow> world \<Rightarrow> world" where
  "write_stderr s w = w\<lparr>stderr_stream := stderr_stream w @ [s]\<rparr>"

definition count_calls :: "api_call \<Rightarrow> world \<Rightarrow> nat" where
  "count_calls c w = count_list (api_calls w) c"

text \<open>
  \<open>espeak_ng_Initialize(context)\<close> returns a status and may store an error context
  through its argument: the result is (status, what \<open>*context\<close> holds afterwards).
\<close>

definition espeak_ng_Initialize ::
  "externals \<Rightarrow> world \<Rightarrow> (espeak_ng_STATUS \<times> espeak_ng_ERROR_CONTEXT) \<times> world" where
  "espeak_ng_Initialize ext w = (Initialize_outcome ext, log_call Call_espeak_ng_Initialize w)"

definition espeak_ng_Terminate :: "world \<Rightarrow> world" where
  "espeak_ng_Terminate w = log_call Call_espeak_ng_Terminate w"

text \<open>\<open>espeak_ng_ClearErrorContext(&data)\<close>, recorded with what \<open>data\<close> holds.\<close>

definition espeak_ng_ClearErrorContext :: "espeak_ng_ERROR_CONTEXT \<Rightarrow> world \<Rightarrow> world" where
  "espeak_ng_ClearErrorContext ctx w = log_call (Call_espeak_ng_ClearErrorContext ctx) w"

text \<open>\<open>espeak_ng_PrintStatusCodeMessage(status, stderr, context)\<close>\<close>

definition espeak_ng_PrintStatusCodeMessage ::
  "externals \<Rightarrow> espeak_ng_STATUS \<Rightarrow> espeak_ng_ERROR_CONTEXT \<Rightarrow> world \<Rightarrow> world" where
  "espeak_ng_PrintStatusCodeMessage ext status ctx w =
     write_stderr (status_code_message ext status ctx) w"

definition SDL_SetMainReady :: "world \<Rightarrow> world" where
  "SDL_SetMainReady w = log_call Call_SDL_SetMainReady w"

definition SDL_Init :: "externals \<Rightarrow> 32 word \<Rightarrow> world \<Rightarrow> int \<times> world" where
  "SDL_Init ext flags w = (SDL_Init_outcome ext flags, log_call (Call_SDL_Init flags) w)"

definition SDL_Quit :: "world \<Rightarrow> world" where
  "SDL_Quit w = log_call Call_SDL_Quit w"

definition SDL_GetError :: "externals \<Rightarrow> string" where
  "SDL_GetError ext = SDL_GetError_text ext"

definition SDL_QueueAudio ::
  "externals \<Rightarrow> SDL_AudioDeviceID \<Rightarrow> 16 word list \<Rightarrow> 32 word \<Rightarrow> world \<Rightarrow> int \<times> world" where
  "SDL_QueueAudio ext dev buf len w =
     (SDL_QueueAudio_outcome ext dev buf len, log_call (Call_SDL_QueueAudio dev buf len) w)"

subsection \<open>Errors and scopes\<close>

text \<open>
  \<open>Runtime_error\<close> is a thrown \<open>std::runtime_error\<close> with its message. A failed
  \<open>assert\<close> aborts the process, and a read past the end of an array has no defined
  behaviour: neither unwinds the stack.
\<close>

datatype error = Runtime_error string | Assertion_failure | Out_of_bounds_read

fun leaves_scope :: "error + 'a \<Rightarrow> bool" where
  "leaves_scope (Inr x) = True"
| "leaves_scope (Inl (Runtime_error m)) = True"
| "leaves_scope (Inl Assertion_failure) = False"
| "leaves_scope (Inl Out_of_bounds_read) = False"

text \<open>
  The end of a block that holds an object with destructor \<open>dtor\<close>: the destructor runs
  when control leaves the block, by its end or by an exception passing through.
\<close>

definition at_scope_exit :: "(world \<Rightarrow> world) \<Rightarrow> (error + 'a) \<times> world \<Rightarrow> (error + 'a) \<times> world" where
  "at_scope_exit dtor rw =
     (case rw of (r, w) \<Rightarrow> (r, if leaves_scope r then dtor w else w))"

section \<open>espeak-ng.hpp\<close>

text \<open>
  \<^verbatim>\<open>if (code_to_check != ENS_OK) {
    espeak_ng_PrintStatusCodeMessage(code_to_check, stderr, current_error_context);
    throw std::runtime_error("eSpeak-NG error"); }\<close>
\<close>

definition throw_if_not_ok ::
  "externals \<Rightarrow> espeak_ng_STATUS \<Rightarrow> espeak_ng_ERROR_CONTEXT \<Rightarrow> world \<Rightarrow> (error + unit) \<times> world" where
  "throw_if_not_ok ext code_to_check current_error_context w =
     (if code_to_check \<noteq> ENS_OK
      then (Inl (Runtime_error ''eSpeak-NG error''),
            espeak_ng_PrintStatusCodeMessage ext code_to_check current_error_context w)
      else (Inr (), w))"

subsection \<open>\<open>espeak_ng::error_context\<close>\<close>

record error_context =
  data :: espeak_ng_ERROR_CONTEXT

text \<open>The member initialiser \<open>data{nullptr}\<close>.\<close>

definition error_context_new :: error_context where
  "error_context_new = \<lparr>data = None\<rparr>"

text \<open>\<open>~error_context() { espeak_ng_ClearErrorContext(&data); }\<close>\<close>

definition error_context_dtor :: "error_context \<Rightarrow> world \<Rightarrow> world" where
  "error_context_dtor ec w = espeak_ng_ClearErrorContext (data ec) w"

text \<open>
  \<open>operator espeak_ng_ERROR_CONTEXT*()\<close>: \<open>assert(data == nullptr); return &data;\<close>
  The address is that of the object's own member, so the result only says whether the
  assertion held.
\<close>

definition error_context_pointer :: "error_context \<Rightarrow> error + unit" where
  "error_context_pointer ec = (if data ec = None then Inr () else Inl Assertion_failure)"

text \<open>\<open>operator*() { return data; }\<close>\<close>

definition error_context_deref :: "error_context \<Rightarrow> espeak_ng_ERROR_CONTEXT" where
  "error_context_deref ec = data ec"

text \<open>
  A block that declares an \<open>error_context\<close> and runs \<open>body\<close> with it; \<open>body\<close> returns its
  result and what the context holds at the end.
\<close>

definition with_error_context ::
  "(error_context \<Rightarrow> world \<Rightarrow> ((error + 'a) \<times> error_context) \<times> world) \<Rightarrow> world
     \<Rightarrow> (error + 'a) \<times> world" where
  "with_error_context body w =
     (case body error_context_new w of
        ((r, ec), w1) \<Rightarrow> at_scope_exit (error_context_dtor ec) (r, w1))"

subsection \<open>\<open>espeak_ng::service\<close>\<close>

text \<open>
  The constructor:
  \<^verbatim>\<open>error_context initialisation_error;
  throw_if_not_ok(espeak_ng_Initialize(initialisation_error), *initialisation_error);\<close>
  The two arguments of \<open>throw_if_not_ok\<close> are evaluated in an order the language leaves
  open; \<open>second_argument_first\<close> says which one the compiler chose.
\<close>

definition espeak_ng_service_ctor_body ::
  "externals \<Rightarrow> error_context \<Rightarrow> world \<Rightarrow> ((error + unit) \<times> error_context) \<times> world" where
  "espeak_ng_service_ctor_body ext initialisation_error w =
     (case error_context_pointer initialisation_error of
        Inl e \<Rightarrow> ((Inl e, initialisation_error), w)
      | Inr _ \<Rightarrow>
          (case espeak_ng_Initialize ext w of
             ((code, written), w1) \<Rightarrow>
               (let populated = initialisation_error\<lparr>data := written\<rparr>;
                    current = (if second_argument_first ext
                               then error_context_deref initialisation_error
                               else error_context_deref populated)
                in case throw_if_not_ok ext code current w1 of
                     (r, w2) \<Rightarrow> ((r, populated), w2))))"

definition espeak_ng_service_ctor :: "externals \<Rightarrow> world \<Rightarrow> (error + unit) \<times> world" where
  "espeak_ng_service_ctor ext w = with_error_context (espeak_ng_service_ctor_body ext) w"

text \<open>\<open>~service() { espeak_ng_Terminate(); }\<close>\<close>

definition espeak_ng_service_dtor :: "world \<Rightarrow> world" where
  "espeak_ng_service_dtor w = espeak_ng_Terminate w"

text \<open>
  A block that declares an \<open>espeak_ng::service\<close> and then runs \<open>body\<close>, as \<open>main\<close> does.
  When the constructor throws, no object exists and no destructor runs.
\<close>

definition with_espeak_ng_service ::
  "externals \<Rightarrow> (world \<Rightarrow> (error + 'a) \<times> world) \<Rightarrow> world \<Rightarrow> (error + 'a) \<times> world" where
  "with_espeak_ng_service ext body w =
     (case espeak_ng_service_ctor ext w of
        (Inl e, w1) \<Rightarrow> (Inl e, w1)
      | (Inr _, w1) \<Rightarrow> at_scope_exit espeak_ng_service_dtor (body w1))"

section \<open>sdl2.hpp\<close>

text \<open>
  \<^verbatim>\<open>if (is_throwing) {
    std::fprintf(stderr, "%s\n", SDL_GetError());
    throw std::runtime_error("SDL2 error"); }\<close>
\<close>

definition throw_if :: "externals \<Rightarrow> bool \<Rightarrow> world \<Rightarrow> (error + unit) \<times> world" where
  "throw_if ext is_throwing w =
     (if is_throwing
      then (Inl (Runtime_error ''SDL2 error''), write_stderr (SDL_GetError ext @ [CHR 0x0A]) w)
      else (Inr (), w))"

subsection \<open>\<open>sdl2::service\<close>\<close>

text \<open>
  The constructor; \<open>main_handled\<close> says whether \<open>SDL_MAIN_HANDLED\<close> was defined when
  the header was included (it is in \<open>main.cpp\<close>):
  \<^verbatim>\<open>#ifdef SDL_MAIN_HANDLED
    SDL_SetMainReady();
  #endif
    throw_if(0 != SDL_Init(subsystem_flags));\<close>
\<close>

definition sdl2_service_ctor ::
  "bool \<Rightarrow> externals \<Rightarrow> 32 word \<Rightarrow> world \<Rightarrow> (error + unit) \<times> world" where
  "sdl2_service_ctor main_handled ext subsystem_flags w =
     (let w0 = (if main_handled then SDL_SetMainReady w else w)
      in case SDL_Init ext subsystem_flags w0 of
           (rc, w1) \<Rightarrow> throw_if ext (0 \<noteq> rc) w1)"

text \<open>\<open>~service() { SDL_Quit(); }\<close>\<close>

definition sdl2_service_dtor :: "world \<Rightarrow> world" where
  "sdl2_service_dtor w = SDL_Quit w"

definition with_sdl2_service ::
  "bool \<Rightarrow> externals \<Rightarrow> 32 word \<Rightarrow> (world \<Rightarrow> (error + 'a) \<times> world) \<Rightarrow> world
     \<Rightarrow> (error + 'a) \<times> world" where
  "with_sdl2_service main_handled ext subsystem_flags body w =
     (case sdl2_service_ctor main_handled ext subsystem_flags w of
        (Inl e, w1) \<Rightarrow> (Inl e, w1)
      | (Inr _, w1) \<Rightarrow> at_scope_exit sdl2_service_dtor (body w1))"

text \<open>\<open>sdl2::audio_device\<close> is \<open>auto_handle<nullable_deleter<SDL_AudioDeviceID, SDL_CloseAudioDevice>>\<close>.\<close>

type_synonym audio_device = "SDL_AudioDeviceID nauto_handle"

section \<open>main.cpp: the synthesis callback\<close>

text \<open>
  \<open>espeak_EVENT\<close> and its type tag are declared in \<open>speak_lib.h\<close>. \<open>user_data\<close> is a
  \<open>void*\<close> that the callback casts to \<open>sdl2::audio_device*\<close>: \<open>None\<close> is the null
  pointer, \<open>Some d\<close> points to the owner \<open>d\<close>. The union \<open>id\<close> is never read and is
  left out.
\<close>

datatype espeak_EVENT_TYPE =
    espeakEVENT_LIST_TERMINATED
  | espeakEVENT_WORD
  | espeakEVENT_SENTENCE
  | espeakEVENT_MARK
  | espeakEVENT_PLAY
  | espeakEVENT_END
  | espeakEVENT_MSG_TERMINATED
  | espeakEVENT_PHONEME
  | espeakEVENT_SAMPLERATE

record espeak_EVENT =
  type :: espeak_EVENT_TYPE
  unique_identifier :: "32 word"
  text_position :: "32 word"
  length_field :: "32 word"
  audio_position :: "32 word"
  sample :: "32 word"
  user_data :: "audio_device option"

text \<open>The \<open>switch\<close> in the loop: every label leads to \<open>break\<close>.\<close>

fun SynthCallback_switch :: "espeak_EVENT_TYPE \<Rightarrow> world \<Rightarrow> world" where
  "SynthCallback_switch espeakEVENT_LIST_TERMINATED w = w"
| "SynthCallback_switch espeakEVENT_WORD w = w"
| "SynthCallback_switch espeakEVENT_SENTENCE w = w"
| "SynthCallback_switch espeakEVENT_MARK w = w"
| "SynthCallback_switch espeakEVENT_PLAY w = w"
| "SynthCallback_switch espeakEVENT_END w = w"
| "SynthCallback_switch espeakEVENT_MSG_TERMINATED w = w"
| "SynthCallback_switch espeakEVENT_PHONEME w = w"
| "SynthCallback_switch espeakEVENT_SAMPLERATE w = w"

text \<open>
  \<^verbatim>\<open>for (; events->type != espeakEVENT_LIST_TERMINATED; ++events) { switch ... }\<close>
  The array is the list of its elements; the loop ends at the first terminator and
  yields it. Stepping past the last element of the array is a read out of bounds.
\<close>

fun SynthCallback_loop :: "espeak_EVENT list \<Rightarrow> world \<Rightarrow> (error + espeak_EVENT) \<times> world" where
  "SynthCallback_loop [] w = (Inl Out_of_bounds_read, w)"
| "SynthCallback_loop (event # events) w =
     (if type event \<noteq> espeakEVENT_LIST_TERMINATED
      then SynthCallback_loop events (SynthCallback_switch (type event) w)
      else (Inr event, w))"

text \<open>
  \<open>int SynthCallback(short* wav, int numsamples, espeak_EVENT* events)\<close>. A null \<open>wav\<close>
  or \<open>events\<close> is \<open>None\<close>. After the loop:
  \<^verbatim>\<open>auto& event = *events;
  if (wav != nullptr && numsamples != 0) {
    auto audio_device = static_cast<sdl2::audio_device*>(event.user_data);
    if (audio_device) {
      sdl2::throw_if(0 != SDL_QueueAudio(*audio_device, wav, numsamples * 2));
    }
  }
  return 0;\<close>
\<close>

definition SynthCallback ::
  "externals \<Rightarrow> 16 word list option \<Rightarrow> 32 word \<Rightarrow> espeak_EVENT list option \<Rightarrow> world
     \<Rightarrow> (error + int) \<times> world" where
  "SynthCallback ext wav numsamples events w =
     (case events of
        None \<Rightarrow> (Inl Assertion_failure, w)
      | Some evs \<Rightarrow>
          (case SynthCallback_loop evs w of
             (Inl e, w1) \<Rightarrow> (Inl e, w1)
           | (Inr event, w1) \<Rightarrow>
               (case wav of
                  None \<Rightarrow> (Inr 0, w1)
                | Some buf \<Rightarrow>
                    if numsamples \<noteq> 0
                    then (case user_data event of
                            None \<Rightarrow> (Inr 0, w1)
                          | Some audio_device \<Rightarrow>
                              (case SDL_QueueAudio ext (nauto_to_handle audio_device) buf
                                      (numsamples * 2) w1 of
                                 (rc, w2) \<Rightarrow>
                                   (case throw_if ext (0 \<noteq> rc) w2 of
                                      (Inl e, w3) \<Rightarrow> (Inl e, w3)
                                    | (Inr _, w3) \<Rightarrow> (Inr 0, w3))))
                    else (Inr 0, w1))))"

text \<open>An events array is terminator-ended when one of its elements is a terminator.\<close>

definition is_terminator :: "espeak_EVENT \<Rightarrow> bool" where
  "is_terminator e = (type e = espeakEVENT_LIST_TERMINATED)"

definition terminator_ended :: "espeak_EVENT list \<Rightarrow> bool" where
  "terminator_ended evs = list_ex is_terminator evs"

text \<open>
  The one condition under which the callback queues audio and the queueing fails: the
  buffer is not null, the sample count is not zero, the first terminator carries a
  device and \<open>SDL_QueueAudio\<close> answers with a non-zero status.
\<close>

definition queue_fails ::
  "externals \<Rightarrow> 16 word list option \<Rightarrow> 32 word \<Rightarrow> espeak_EVENT list \<Rightarrow> bool" where
  "queue_fails ext wav numsamples evs =
     (case wav of
        None \<Rightarrow> False
      | Some buf \<Rightarrow>
          numsamples \<noteq> 0 \<and>
          (case find is_terminator evs of
             None \<Rightarrow> False
           | Some ev \<Rightarrow>
               (case user_data ev of
                  None \<Rightarrow> False
                | Some dev \<Rightarrow>
                    SDL_QueueAudio_outcome ext (nauto_to_handle dev) buf (numsamples * 2) \<noteq> 0)))"

section \<open>Sample inputs\<close>

text \<open>Libraries that answer every call with success, and libraries that fail every call.\<close>

definition externals_ok :: externals where
  "externals_ok =
     \<lparr>Initialize_outcome = (0, None),
      status_code_message = (\<lambda>status ctx. ''''),
      SDL_Init_outcome = (\<lambda>flags. 0),
      SDL_GetError_text = '''',
      SDL_QueueAudio_outcome = (\<lambda>dev buf len. 0),
      second_argument_first = False\<rparr>"

definition externals_failing :: externals where
  "externals_failing =
     \<lparr>Initialize_outcome = (1, Some 0),
      status_code_message = (\<lambda>status ctx. ''Error''),
      SDL_Init_outcome = (\<lambda>flags. - 1),
      SDL_GetError_text = ''Invalid audio device ID'',
      SDL_QueueAudio_outcome = (\<lambda>dev buf len. - 1),
      second_argument_first = False\<rparr>"

definition world_empty :: world where
  "world_empty = \<lparr>api_calls = [], stderr_stream = []\<rparr>"

text \<open>Code that follows in the same block and throws an error of its own.\<close>

definition raise_later :: "world \<Rightarrow> (error + unit) \<times> world" where
  "raise_later w = (Inl (Runtime_error ''later error''), w)"

text \<open>A terminator whose \<open>user_data\<close> points to the owner of audio device 2.\<close>

definition terminator_with_device :: espeak_EVENT where
  "terminator_with_device =
     \<lparr>type = espeakEVENT_LIST_TERMINATED, unique_identifier = 0, text_position = 0,
      length_field = 0, audio_position = 0, sample = 0,
      user_data = Some (nauto_from 2)\<rparr>"

section \<open>Properties of the handle wrappers\<close>

text \<open>
  C6. For every handle type and sentinel: a default-constructed \<open>nullable\<close> converts to
  \<open>false\<close>, compares equal to the \<open>nullable\<close> made from \<open>nullptr\<close>, and the conversion to
  \<open>bool\<close> of any \<open>nullable\<close> is \<open>false\<close> exactly when the stored value is the sentinel.
\<close>

theorem nullable_default_is_null:
  "nullable_bool null_value (nullable_default null_value) = False
   \<and> nullable_eq (nullable_default null_value) (nullable_nullptr null_value)
   \<and> nullable_neq (nullable_default null_value) (nullable_nullptr null_value) = False
   \<and> (nullable_bool null_value n = False) = (value_field n = null_value)"
  by (simp add: nullable_bool_def nullable_default_def nullable_nullptr_def nullable_eq_def
      nullable_neq_def nullable_handle_def)

text \<open>
  C7. Constructing a \<open>nullable\<close> from any raw handle value \<open>v\<close>, the sentinel included,
  and converting it back to the raw handle type yields \<open>v\<close>.
\<close>

theorem nullable_roundtrip:
  "nullable_handle (nullable_from v) = v
   \<and> nullable_handle (nullable_from null_value) = null_value"
  by (simp add: nullable_handle_def nullable_from_def)

text \<open>
  What the two call operators do, for any release function: the guard is an equality
  with \<open>pointer()\<close>, so the release function runs on the null handle and on nothing
  else.
\<close>

lemma nullable_deleter_call_cases:
  "nullable_deleter_call h0 f p w = (if value_field p = h0 then f h0 w else w)"
  by (simp add: nullable_deleter_call_def nullable_eq_def nullable_handle_def
      nullable_default_def)

lemma unsafe_handle_deleter_call_cases:
  "unsafe_handle_deleter_call h0 f p w = (if p = h0 then snd (f h0 w) else w)"
  by (simp add: unsafe_handle_deleter_call_def)

text \<open>
  The owner calls its deleter with a non-null pointer only, and the deleter forwards the
  null pointer only: destroying or replacing an owner leaves the world as it was.
\<close>

lemma nauto_dtor_no_effect: "nauto_dtor h0 f a w = w"
  by (simp add: nauto_dtor_def unique_ptr_dtor_def unique_ptr_get_def nauto_is_nullptr_def
      nullable_nullptr_def nullable_deleter_call_def)

lemma hauto_dtor_no_effect: "hauto_dtor h0 f a w = w"
  by (simp add: hauto_dtor_def unique_ptr_dtor_def unique_ptr_get_def hauto_is_nullptr_def
      unsafe_handle_deleter_call_def)

lemma nauto_reset_world: "snd (nauto_reset h0 f p a w) = w"
  by (simp add: nauto_reset_def unique_ptr_reset_def Let_def nullable_deleter_call_cases
      nullable_bool_def)

lemma hauto_reset_world: "snd (hauto_reset h0 f p a w) = w"
  by (simp add: hauto_reset_def unique_ptr_reset_def Let_def unsafe_handle_deleter_call_cases
      hauto_truthy_def)

text \<open>
  C1. The claim: the call operator of a deleter, given the null handle, never invokes
  the release function. The code at the null handle, with a recording release function
  and no call recorded before: \<open>nullable_deleter<SDL_AudioDeviceID, f>\<close> given
  \<open>nullable()\<close> calls \<open>f(0)\<close>, and \<open>unsafe_handle_deleter<FILE*, int, f>\<close> given the
  null pointer calls \<open>f(nullptr)\<close>; given the handle 42 neither calls \<open>f\<close>.
\<close>

theorem deleter_on_null_calls_release:
  "nullable_deleter_call (0 :: 32 word) recording_release (nullable_nullptr 0) [] = [0]
   \<and> unsafe_handle_deleter_call (None :: nat option) recording_release_status None [] = [None]
   \<and> nullable_deleter_call (0 :: 32 word) recording_release (nullable_from 42) [] = []
   \<and> unsafe_handle_deleter_call (None :: nat option) recording_release_status (Some 42) [] = []"
  by (simp add: nullable_deleter_call_cases unsafe_handle_deleter_call_cases
      nullable_nullptr_def nullable_default_def nullable_from_def
      recording_release_def recording_release_status_def)

text \<open>
  C2. The claim: destroying or replacing an owner that holds a non-empty handle \<open>H\<close>
  invokes the release function exactly once with \<open>H\<close>. The code at \<open>H = 42\<close>, with a
  recording release function: destroying the owner records no call, and so does
  replacing the held value by 7.
\<close>

theorem owner_of_42_records_no_release:
  "nauto_dtor (0 :: 32 word) recording_release (nauto_from 42) [] = []
   \<and> snd (nauto_reset (0 :: 32 word) recording_release (nullable_from 7) (nauto_from 42) []) = []
   \<and> hauto_dtor (None :: nat option) recording_release_status (hauto_from (Some 42)) [] = []
   \<and> snd (hauto_reset (None :: nat option) recording_release_status (Some 7)
        (hauto_from (Some 42)) []) = []"
  by (simp add: nauto_dtor_no_effect hauto_dtor_no_effect nauto_reset_world hauto_reset_world)

text \<open>
  C3. The claim: a move transfers the held value, empties the source, and the release
  function runs once over the two owners. The code, moving an owner of 42 by
  construction and by assignment into an empty owner: the destination holds 42 and the
  source 0, and destroying both (destination first) records no call at all.
\<close>

theorem moved_owner_of_42_records_no_release:
  "(case nauto_move_ctor (0 :: 32 word) (nauto_from 42) of
      (dst, src) \<Rightarrow>
        nauto_to_handle dst = 42 \<and> nauto_to_handle src = 0 \<and> nauto_bool 0 src = False
        \<and> nauto_dtor 0 recording_release src (nauto_dtor 0 recording_release dst []) = [])
   \<and> (case nauto_move_assign (0 :: 32 word) recording_release (nauto_default 0) (nauto_from 42) [] of
      (dst, src, w) \<Rightarrow>
        nauto_to_handle dst = 42 \<and> nauto_to_handle src = 0 \<and> nauto_bool 0 src = False
        \<and> nauto_dtor 0 recording_release src (nauto_dtor 0 recording_release dst w) = [])"
  by (simp add: nauto_move_ctor_def nauto_move_assign_def unique_ptr_move_ctor_def
      unique_ptr_move_assign_def unique_ptr_release_def unique_ptr_reset_def
      unique_ptr_from_def unique_ptr_get_def unique_ptr_default_def unique_ptr_bool_def
      nauto_from_def nauto_default_def nauto_to_handle_def nauto_bool_def nauto_is_nullptr_def
      nullable_from_def nullable_default_def nullable_nullptr_def nullable_handle_def
      nullable_eq_def nullable_bool_def nauto_dtor_no_effect Let_def)

text \<open>The observers leave the owner as it is.\<close>

lemma nauto_observers_keep:
  "list_all is_observer ops \<Longrightarrow> fold (nauto_step h0 f) ops (a, w) = (a, w)"
proof (induction ops)
  case Nil
  show ?case by simp
next
  case (Cons op ops)
  then show ?case by (cases op) simp_all
qed

lemma hauto_observers_keep:
  "list_all is_observer ops \<Longrightarrow> fold (hauto_step h0 f) ops (a, w) = (a, w)"
proof (induction ops)
  case Nil
  show ?case by simp
next
  case (Cons op ops)
  then show ?case by (cases op) simp_all
qed

text \<open>
  C8. An owner constructed from a raw handle \<open>H\<close> converts to \<open>H\<close>, at once and after
  any sequence of member calls that neither replace the held value nor move it out
  (the owner being alive throughout), for both kinds of deleter.
\<close>

theorem auto_handle_converts_to_its_handle:
  assumes "list_all is_observer ops" and "list_all is_observer ops'"
  shows "nauto_to_handle (nauto_from H) = H
     \<and> hauto_to_handle (hauto_from H') = H'
     \<and> nauto_to_handle (fst (fold (nauto_step h0 f) ops (nauto_from H, w))) = H
     \<and> hauto_to_handle (fst (fold (hauto_step h0' g) ops' (hauto_from H', w'))) = H'"
proof -
  have n: "nauto_to_handle (nauto_from H) = H"
    by (simp add: nauto_to_handle_def nauto_from_def unique_ptr_get_def unique_ptr_from_def
        nullable_handle_def nullable_from_def)
  have h: "hauto_to_handle (hauto_from H') = H'"
    by (simp add: hauto_to_handle_def hauto_from_def unique_ptr_get_def unique_ptr_from_def)
  from assms n h show ?thesis
    by (simp add: nauto_observers_keep hauto_observers_keep)
qed

theorem auto_handle_converts_to_its_handle_witness:
  "list_all is_observer [Op_get, Op_bool, Op_convert :: 32 word nullable owner_op]
   \<and> list_all is_observer [Op_convert, Op_get :: nat option owner_op]
   \<and> nauto_to_handle (fst (fold (nauto_step (0 :: 32 word) recording_release)
        [Op_get, Op_bool, Op_convert] (nauto_from 42, []))) = 42
   \<and> hauto_to_handle (fst (fold (hauto_step (None :: nat option) recording_release_status)
        [Op_convert, Op_get] (hauto_from (Some 42), []))) = Some 42"
proof -
  have a: "list_all is_observer [Op_get, Op_bool, Op_convert :: 32 word nullable owner_op]"
    by simp
  have b: "list_all is_observer [Op_convert, Op_get :: nat option owner_op]"
    by simp
  from auto_handle_converts_to_its_handle [OF a b, of 42 "Some 42" 0 recording_release "[]"
      None recording_release_status "[]"] a b
  show ?thesis by simp
qed

section \<open>Properties of the failure checks\<close>

text \<open>
  C4. \<open>espeak_ng::throw_if_not_ok\<close> raises exactly when the status is not \<open>ENS_OK\<close>, and
  \<open>sdl2::throw_if\<close> exactly when its condition is true. When one raises, the error is
  a \<open>std::runtime_error\<close> with a fixed message and the world it raises in has one more
  line on \<open>stderr\<close>: the library's message for the status, respectively the text of
  \<open>SDL_GetError\<close> and a newline. Otherwise the world is unchanged.
\<close>

theorem failure_checks_raise_iff_failed:
  "isl (fst (throw_if_not_ok ext code ctx w)) = (code \<noteq> ENS_OK)
   \<and> fst (throw_if_not_ok ext code ctx w) =
       (if code \<noteq> ENS_OK then Inl (Runtime_error ''eSpeak-NG error'') else Inr ())
   \<and> stderr_stream (snd (throw_if_not_ok ext code ctx w)) =
       (if code \<noteq> ENS_OK then stderr_stream w @ [status_code_message ext code ctx]
        else stderr_stream w)
   \<and> api_calls (snd (throw_if_not_ok ext code ctx w)) = api_calls w
   \<and> (if code = ENS_OK then snd (throw_if_not_ok ext code ctx w) = w else True)
   \<and> isl (fst (throw_if ext is_throwing w)) = is_throwing
   \<and> fst (throw_if ext is_throwing w) =
       (if is_throwing then Inl (Runtime_error ''SDL2 error'') else Inr ())
   \<and> stderr_stream (snd (throw_if ext is_throwing w)) =
       (if is_throwing then stderr_stream w @ [SDL_GetError_text ext @ [CHR 0x0A]]
        else stderr_stream w)
   \<and> api_calls (snd (throw_if ext is_throwing w)) = api_calls w
   \<and> (if is_throwing then True else snd (throw_if ext is_throwing w) = w)"
  by (simp add: throw_if_not_ok_def throw_if_def espeak_ng_PrintStatusCodeMessage_def
      write_stderr_def SDL_GetError_def)

section \<open>Properties of the lifecycle wrappers\<close>

lemma count_calls_log_call:
  "count_calls c (log_call c' w) = count_calls c w + (if c = c' then 1 else 0)"
  by (simp add: count_calls_def log_call_def)

lemma count_calls_write_stderr: "count_calls c (write_stderr s w) = count_calls c w"
  by (simp add: count_calls_def write_stderr_def)

text \<open>What the two constructors return and which calls they make.\<close>

lemma espeak_ng_service_ctor_result:
  "fst (espeak_ng_service_ctor ext w) =
     (if fst (Initialize_outcome ext) \<noteq> ENS_OK
      then Inl (Runtime_error ''eSpeak-NG error'') else Inr ())"
  by (cases "Initialize_outcome ext")
     (simp add: espeak_ng_service_ctor_def with_error_context_def
      espeak_ng_service_ctor_body_def error_context_pointer_def error_context_new_def
      espeak_ng_Initialize_def throw_if_not_ok_def at_scope_exit_def Let_def)

lemma espeak_ng_service_ctor_calls:
  "api_calls (snd (espeak_ng_service_ctor ext w)) =
     api_calls w @ [Call_espeak_ng_Initialize,
                    Call_espeak_ng_ClearErrorContext (snd (Initialize_outcome ext))]"
  by (cases "Initialize_outcome ext")
     (simp add: espeak_ng_service_ctor_def with_error_context_def
      espeak_ng_service_ctor_body_def error_context_pointer_def error_context_new_def
      espeak_ng_Initialize_def throw_if_not_ok_def at_scope_exit_def Let_def
      error_context_dtor_def espeak_ng_ClearErrorContext_def log_call_def
      espeak_ng_PrintStatusCodeMessage_def write_stderr_def)

lemma espeak_ng_service_ctor_count:
  "count_calls Call_espeak_ng_Terminate (snd (espeak_ng_service_ctor ext w)) =
     count_calls Call_espeak_ng_Terminate w"
  by (simp add: count_calls_def espeak_ng_service_ctor_calls)

lemma sdl2_service_ctor_result:
  "fst (sdl2_service_ctor main_handled ext flags w) =
     (if SDL_Init_outcome ext flags \<noteq> 0 then Inl (Runtime_error ''SDL2 error'') else Inr ())"
  by (simp add: sdl2_service_ctor_def SDL_Init_def throw_if_def Let_def)

lemma sdl2_service_ctor_calls:
  "api_calls (snd (sdl2_service_ctor main_handled ext flags w)) =
     api_calls w @ (if main_handled then [Call_SDL_SetMainReady] else []) @ [Call_SDL_Init flags]"
  by (simp add: sdl2_service_ctor_def SDL_Init_def throw_if_def Let_def SDL_SetMainReady_def
      log_call_def write_stderr_def)

lemma sdl2_service_ctor_count:
  "count_calls Call_SDL_Quit (snd (sdl2_service_ctor main_handled ext flags w)) =
     count_calls Call_SDL_Quit w"
  by (simp add: count_calls_def sdl2_service_ctor_calls)

lemma at_scope_exit_fst: "fst (at_scope_exit dtor rw) = fst rw"
  by (simp add: at_scope_exit_def split: prod.splits)

lemma at_scope_exit_snd:
  "snd (at_scope_exit dtor rw) = (if leaves_scope (fst rw) then dtor (snd rw) else snd rw)"
  by (simp add: at_scope_exit_def split: prod.splits)

text \<open>
  C5. A block declares a service object and then runs \<open>body\<close>, code that makes no
  call of the terminator itself. If the initialiser fails, the constructor raises its
  error and the block adds no call of the terminator (\<open>espeak_ng_Terminate\<close>,
  respectively \<open>SDL_Quit\<close>). If the initialiser succeeds, the block ends as \<open>body\<close>
  does and adds exactly one call of the terminator whenever control leaves the block,
  by its end or by an error that \<open>body\<close> raises.
\<close>

theorem service_terminates_iff_initialised:
  assumes "\<forall>w'. count_calls Call_espeak_ng_Terminate (snd (body w')) =
                 count_calls Call_espeak_ng_Terminate w'"
      and "\<forall>w'. count_calls Call_SDL_Quit (snd (body' w')) = count_calls Call_SDL_Quit w'"
  shows
    "(if fst (Initialize_outcome ext) \<noteq> ENS_OK
      then fst (with_espeak_ng_service ext body w) = Inl (Runtime_error ''eSpeak-NG error'')
         \<and> count_calls Call_espeak_ng_Terminate (snd (with_espeak_ng_service ext body w)) =
             count_calls Call_espeak_ng_Terminate w
      else fst (with_espeak_ng_service ext body w) = fst (body (snd (espeak_ng_service_ctor ext w)))
         \<and> count_calls Call_espeak_ng_Terminate (snd (with_espeak_ng_service ext body w)) =
             count_calls Call_espeak_ng_Terminate w +
             (if leaves_scope (fst (body (snd (espeak_ng_service_ctor ext w)))) then 1 else 0))
     \<and> (if SDL_Init_outcome ext flags \<noteq> 0
      then fst (with_sdl2_service mh ext flags body' w) = Inl (Runtime_error ''SDL2 error'')
         \<and> count_calls Call_SDL_Quit (snd (with_sdl2_service mh ext flags body' w)) =
             count_calls Call_SDL_Quit w
      else fst (with_sdl2_service mh ext flags body' w) =
             fst (body' (snd (sdl2_service_ctor mh ext flags w)))
         \<and> count_calls Call_SDL_Quit (snd (with_sdl2_service mh ext flags body' w)) =
             count_calls Call_SDL_Quit w +
             (if leaves_scope (fst (body' (snd (sdl2_service_ctor mh ext flags w)))) then 1 else 0))"
proof -
  obtain r1 w1 where c1: "espeak_ng_service_ctor ext w = (r1, w1)"
    by (cases "espeak_ng_service_ctor ext w")
  have r1: "r1 = (if fst (Initialize_outcome ext) \<noteq> ENS_OK
      then Inl (Runtime_error ''eSpeak-NG error'') else Inr ())"
    using espeak_ng_service_ctor_result [of ext w] c1 by simp
  have k1: "count_calls Call_espeak_ng_Terminate w1 = count_calls Call_espeak_ng_Terminate w"
    using espeak_ng_service_ctor_count [of ext w] c1 by simp
  have espeak: "(if fst (Initialize_outcome ext) \<noteq> ENS_OK
      then fst (with_espeak_ng_service ext body w) = Inl (Runtime_error ''eSpeak-NG error'')
         \<and> count_calls Call_espeak_ng_Terminate (snd (with_espeak_ng_service ext body w)) =
             count_calls Call_espeak_ng_Terminate w
      else fst (with_espeak_ng_service ext body w) = fst (body (snd (espeak_ng_service_ctor ext w)))
         \<and> count_calls Call_espeak_ng_Terminate (snd (with_espeak_ng_service ext body w)) =
             count_calls Call_espeak_ng_Terminate w +
             (if leaves_scope (fst (body (snd (espeak_ng_service_ctor ext w)))) then 1 else 0))"
    using assms(1) k1
    by (simp add: with_espeak_ng_service_def c1 r1 at_scope_exit_fst at_scope_exit_snd
        espeak_ng_service_dtor_def espeak_ng_Terminate_def count_calls_log_call)
  obtain r2 w2 where c2: "sdl2_service_ctor mh ext flags w = (r2, w2)"
    by (cases "sdl2_service_ctor mh ext flags w")
  have r2: "r2 = (if SDL_Init_outcome ext flags \<noteq> 0
      then Inl (Runtime_error ''SDL2 error'') else Inr ())"
    using sdl2_service_ctor_result [of mh ext flags w] c2 by simp
  have k2: "count_calls Call_SDL_Quit w2 = count_calls Call_SDL_Quit w"
    using sdl2_service_ctor_count [of mh ext flags w] c2 by simp
  have sdl: "(if SDL_Init_outcome ext flags \<noteq> 0
      then fst (with_sdl2_service mh ext flags body' w) = Inl (Runtime_error ''SDL2 error'')
         \<and> count_calls Call_SDL_Quit (snd (with_sdl2_service mh ext flags body' w)) =
             count_calls Call_SDL_Quit w
      else fst (with_sdl2_service mh ext flags body' w) =
             fst (body' (snd (sdl2_service_ctor mh ext flags w)))
         \<and> count_calls Call_SDL_Quit (snd (with_sdl2_service mh ext flags body' w)) =
             count_calls Call_SDL_Quit w +
             (if leaves_scope (fst (body' (snd (sdl2_service_ctor mh ext flags w)))) then 1 else 0))"
    using assms(2) k2
    by (simp add: with_sdl2_service_def c2 r2 at_scope_exit_fst at_scope_exit_snd
        sdl2_service_dtor_def SDL_Quit_def count_calls_log_call)
  from espeak sdl show ?thesis by (rule conjI)
qed

text \<open>
  With libraries that succeed and a body that raises a later error, the terminator is
  called once; with libraries that fail, the constructor's error comes out and the
  terminator is not called.
\<close>

theorem service_terminates_iff_initialised_witness:
  "(\<forall>w'. count_calls Call_espeak_ng_Terminate (snd (raise_later w')) =
          count_calls Call_espeak_ng_Terminate w')
   \<and> (\<forall>w'. count_calls Call_SDL_Quit (snd (raise_later w')) = count_calls Call_SDL_Quit w')
   \<and> fst (with_espeak_ng_service externals_ok raise_later world_empty) =
       Inl (Runtime_error ''later error'')
   \<and> count_calls Call_espeak_ng_Terminate
       (snd (with_espeak_ng_service externals_ok raise_later world_empty)) = 1
   \<and> fst (with_sdl2_service True externals_ok 16 raise_later world_empty) =
       Inl (Runtime_error ''later error'')
   \<and> count_calls Call_SDL_Quit
       (snd (with_sdl2_service True externals_ok 16 raise_later world_empty)) = 1
   \<and> fst (with_espeak_ng_service externals_failing raise_later world_empty) =
       Inl (Runtime_error ''eSpeak-NG error'')
   \<and> count_calls Call_espeak_ng_Terminate
       (snd (with_espeak_ng_service externals_failing raise_later world_empty)) = 0
   \<and> fst (with_sdl2_service True externals_failing 16 raise_later world_empty) =
       Inl (Runtime_error ''SDL2 error'')
   \<and> count_calls Call_SDL_Quit
       (snd (with_sdl2_service True externals_failing 16 raise_later world_empty)) = 0"
proof -
  have a: "\<forall>w'. count_calls Call_espeak_ng_Terminate (snd (raise_later w')) =
                count_calls Call_espeak_ng_Terminate w'"
    by (simp add: raise_later_def)
  have b: "\<forall>w'. count_calls Call_SDL_Quit (snd (raise_later w')) = count_calls Call_SDL_Quit w'"
    by (simp add: raise_later_def)
  have z: "count_calls c world_empty = 0" for c
    by (simp add: count_calls_def world_empty_def)
  have ok: "fst (Initialize_outcome externals_ok) = ENS_OK" "SDL_Init_outcome externals_ok 16 = 0"
    by (simp_all add: externals_ok_def ENS_OK_def)
  have bad: "fst (Initialize_outcome externals_failing) \<noteq> ENS_OK"
    "SDL_Init_outcome externals_failing 16 \<noteq> 0"
    by (simp_all add: externals_failing_def ENS_OK_def)
  have r: "fst (raise_later v) = Inl (Runtime_error ''later error'')" for v
    by (simp add: raise_later_def)
  from service_terminates_iff_initialised [OF a b, of externals_ok world_empty 16 True]
    service_terminates_iff_initialised [OF a b, of externals_failing world_empty 16 True]
    a b
  show ?thesis
    by (simp add: z ok bad r)
qed

text \<open>
  C9. The destructor of \<open>error_context\<close> calls \<open>espeak_ng_ClearErrorContext\<close> on its
  context whatever the context holds. A block that declares an \<open>error_context\<close> ends
  with that call on every path that leaves it, by its end or by a thrown error; so
  does the constructor of \<open>espeak_ng::service\<close>, whether initialisation fails or not and
  whether it stored a context or not.
\<close>

theorem error_context_cleared_on_every_exit:
  "api_calls (error_context_dtor ec w) =
     api_calls w @ [Call_espeak_ng_ClearErrorContext (data ec)]
   \<and> api_calls (snd (with_error_context body w)) =
       (case body error_context_new w of
          ((r, ec'), w1) \<Rightarrow>
            if leaves_scope r
            then api_calls w1 @ [Call_espeak_ng_ClearErrorContext (data ec')]
            else api_calls w1)
   \<and> api_calls (snd (espeak_ng_service_ctor ext w)) =
       api_calls w @ [Call_espeak_ng_Initialize,
                      Call_espeak_ng_ClearErrorContext (snd (Initialize_outcome ext))]"
  by (simp add: error_context_dtor_def espeak_ng_ClearErrorContext_def log_call_def
      with_error_context_def at_scope_exit_def espeak_ng_service_ctor_calls
      split: prod.splits)

section \<open>Properties of the synthesis callback\<close>

lemma SynthCallback_switch_id: "SynthCallback_switch t w = w"
  by (cases t) simp_all

lemma SynthCallback_loop_find:
  "SynthCallback_loop evs w =
     (case find is_terminator evs of None \<Rightarrow> Inl Out_of_bounds_read | Some ev \<Rightarrow> Inr ev, w)"
  by (induction evs arbitrary: w) (simp_all add: is_terminator_def SynthCallback_switch_id)

lemma terminator_ended_find:
  "terminator_ended evs \<Longrightarrow> \<exists>ev. find is_terminator evs = Some ev"
  by (induction evs) (auto simp: terminator_ended_def)

text \<open>
  C10, as amended. For every non-null, terminator-ended events array the callback
  returns 0, except when it queues audio and the queueing fails: then it raises the
  error of \<open>sdl2::throw_if\<close> and returns nothing. It never returns the abort signal 1.
\<close>

theorem SynthCallback_returns_0_or_raises:
  assumes "terminator_ended evs"
  shows "fst (SynthCallback ext wav numsamples (Some evs) w) =
           (if queue_fails ext wav numsamples evs
            then Inl (Runtime_error ''SDL2 error'') else Inr 0)
     \<and> fst (SynthCallback ext wav numsamples (Some evs) w) \<noteq> Inr 1"
proof -
  from assms obtain ev where ev: "find is_terminator evs = Some ev"
    using terminator_ended_find by blast
  have "fst (SynthCallback ext wav numsamples (Some evs) w) =
           (if queue_fails ext wav numsamples evs
            then Inl (Runtime_error ''SDL2 error'') else Inr 0)"
    by (simp add: SynthCallback_def SynthCallback_loop_find ev queue_fails_def
        SDL_QueueAudio_def throw_if_def split: option.splits)
  then show ?thesis by simp
qed

theorem SynthCallback_returns_0_or_raises_witness:
  "terminator_ended [terminator_with_device]
   \<and> fst (SynthCallback externals_ok (Some [0]) 1 (Some [terminator_with_device]) world_empty) =
       Inr 0"
proof -
  have t: "terminator_ended [terminator_with_device]"
    by (simp add: terminator_ended_def is_terminator_def terminator_with_device_def)
  from SynthCallback_returns_0_or_raises [OF t, of externals_ok "Some [0]" 1 world_empty] t
  show ?thesis
    by (simp add: queue_fails_def externals_ok_def is_terminator_def terminator_with_device_def)
qed

text \<open>
  C10 as stated fails: with a one-sample buffer, a terminator that carries a device and
  an \<open>SDL_QueueAudio\<close> that reports failure, the callback does not return 0.
\<close>

theorem SynthCallback_raises_when_queueing_fails:
  "terminator_ended [terminator_with_device]
   \<and> fst (SynthCallback externals_failing (Some [0]) 1 (Some [terminator_with_device])
        world_empty) = Inl (Runtime_error ''SDL2 error'')
   \<and> fst (SynthCallback externals_failing (Some [0]) 1 (Some [terminator_with_device])
        world_empty) \<noteq> Inr 0"
  by (simp add: terminator_ended_def is_terminator_def terminator_with_device_def
      SynthCallback_def SDL_QueueAudio_def throw_if_def externals_failing_def)

end
